theory Spec2Isabelle
  imports Complex_Main "HOL-Library.Word"
begin

section \<open>libqueue: the queue manager\<close>

subsection \<open>Data model\<close>

text \<open>
  \<^verbatim>\<open>QueueKey(cfg.type(), cfg.id())\<close>: a queue is identified by its kind and its
  unsigned id.
\<close>

datatype QueueType = queue_dccl | queue_ccl

type_synonym QueueKey = "QueueType \<times> nat"

record QueueConfig =
  cfg_type :: QueueType
  cfg_id :: nat
  cfg_name :: string
  cfg_newest_first :: bool

text \<open>
  The class \<^verbatim>\<open>ModemMessage\<close> is declared outside the files at hand; the model
  keeps the members that the queue manager reads and writes: source, destination,
  the ACK request, the frame number, the request size in bytes and the hex-encoded
  data (two characters per byte).
\<close>

record ModemMessage =
  msg_src :: nat
  msg_dest :: nat
  msg_ack :: bool
  msg_frame :: nat
  msg_size :: nat
  msg_data :: string

text \<open>
  \<^verbatim>\<open>std::list<QueuedMessage> messages_\<close> with
  \<^verbatim>\<open>std::multimap<unsigned, messages_it> waiting_for_ack_\<close> (queue.h). A list
  iterator is modelled by a handle that names the list node: every stored message
  carries its handle, and an ACK entry is a pair of frame number and handle.
\<close>

record Queue =
  q_cfg :: QueueConfig
  q_last_send_time :: nat
  q_messages :: "(nat \<times> ModemMessage) list"
  q_waiting_for_ack :: "(nat \<times> nat) list"

text \<open>
  The manager: \<^verbatim>\<open>modem_id_\<close>, \<^verbatim>\<open>std::map<QueueKey, Queue> queues_\<close> (an
  association list, in iteration order),
  \<^verbatim>\<open>std::multimap<unsigned, Queue*> waiting_for_ack_\<close> (frame number and the key of
  the queue pointed to) and \<^verbatim>\<open>packet_ack_\<close>.
\<close>

record QueueManager =
  modem_id :: nat
  queues :: "(QueueKey \<times> Queue) list"
  waiting_for_ack :: "(nat \<times> QueueKey) list"
  packet_ack :: bool

datatype queue_error = DuplicateKey QueueKey | IdTooLarge QueueKey nat

subsection \<open>add\_queue\<close>

definition new_Queue :: "QueueConfig \<Rightarrow> Queue" where
  "new_Queue cfg = \<lparr>q_cfg = cfg, q_last_send_time = 0, q_messages = [], q_waiting_for_ack = []\<rparr>"

definition queues_count :: "QueueManager \<Rightarrow> QueueKey \<Rightarrow> bool" where
  "queues_count m k = (k \<in> fst ` set (queues m))"

text \<open>
  \<^verbatim>\<open>QueueManager::add_queue\<close>. The constant \<^verbatim>\<open>MAX_ID\<close> (queue\_constants.h) is
  not among the files at hand and is a parameter. Both failures are
  \<^verbatim>\<open>std::runtime_error\<close>s in the source, told apart by their message.
\<close>

definition add_queue :: "nat \<Rightarrow> QueueManager \<Rightarrow> QueueConfig \<Rightarrow> queue_error + QueueManager" where
  "add_queue MAX_ID m cfg =
     (let k = (cfg_type cfg, cfg_id cfg); q = new_Queue cfg in
      if queues_count m k then Inl (DuplicateKey k)
      else if cfg_id (q_cfg q) > MAX_ID \<and> cfg_type (q_cfg q) \<noteq> queue_ccl then Inl (IdTooLarge k MAX_ID)
      else Inr (m\<lparr>queues := queues m @ [(k, q)]\<rparr>))"

subsection \<open>The priority contest\<close>

text \<open>
  \<^verbatim>\<open>QueueManager::find_next_sender\<close>. \<^verbatim>\<open>Queue::priority_values\<close> is defined
  outside the files at hand, so the poll is a parameter \<open>pv\<close>: it yields
  \<open>None\<close> when the queue reports no value and \<open>Some (priority, last_send_time)\<close>
  otherwise. The on-demand upcall of the loop only changes the queue before it is
  polled; \<open>pv\<close> stands for the poll after that upcall. The three locals
  \<^verbatim>\<open>winning_priority\<close>, \<^verbatim>\<open>winning_last_send_time\<close> and \<^verbatim>\<open>winning_var\<close> are one
  optional triple: the first two are read only when \<^verbatim>\<open>winning_var\<close> is set.
\<close>

type_synonym winner = "(real \<times> nat \<times> (QueueKey \<times> Queue)) option"

definition beats :: "real \<Rightarrow> nat \<Rightarrow> winner \<Rightarrow> bool" where
  "beats priority last_send_time w =
     (case w of None \<Rightarrow> True
      | Some (winning_priority, winning_last_send_time, _) \<Rightarrow>
          priority > winning_priority \<or>
          (priority = winning_priority \<and> last_send_time < winning_last_send_time))"

fun contest :: "(QueueKey \<times> Queue \<Rightarrow> (real \<times> nat) option) \<Rightarrow> nat \<Rightarrow>
    (QueueKey \<times> Queue) list \<Rightarrow> winner \<Rightarrow> winner" where
  "contest pv user_frame_num [] w = w"
| "contest pv user_frame_num (oq # rest) w =
     (case pv oq of
        None \<Rightarrow> contest pv user_frame_num rest w
      | Some (priority, last_send_time) \<Rightarrow>
          if beats priority last_send_time w \<and>
             \<not> (cfg_type (q_cfg (snd oq)) = queue_ccl \<and> user_frame_num > 0)
          then contest pv user_frame_num rest (Some (priority, last_send_time, oq))
          else contest pv user_frame_num rest w)"

definition find_next_sender :: "(QueueKey \<times> Queue \<Rightarrow> (real \<times> nat) option) \<Rightarrow> QueueManager \<Rightarrow>
    nat \<Rightarrow> (QueueKey \<times> Queue) option" where
  "find_next_sender pv m user_frame_num =
     map_option (\<lambda>(_, _, oq). oq) (contest pv user_frame_num (queues m) None)"

text \<open>A queue takes part in the contest when it reports a value and is not a CCL
  queue polled for a later user-frame.\<close>

definition eligible :: "(QueueKey \<times> Queue \<Rightarrow> (real \<times> nat) option) \<Rightarrow> nat \<Rightarrow> QueueKey \<times> Queue \<Rightarrow> bool" where
  "eligible pv user_frame_num oq =
     (pv oq \<noteq> None \<and> \<not> (cfg_type (q_cfg (snd oq)) = queue_ccl \<and> user_frame_num > 0))"

text \<open>The order of the contest on reported values: a higher priority, or the same
  priority and a last send time at least as old.\<close>

definition at_least_as_good :: "real \<times> nat \<Rightarrow> real \<times> nat \<Rightarrow> bool" where
  "at_least_as_good a b = (fst b < fst a \<or> (fst b = fst a \<and> snd a \<le> snd b))"

subsection \<open>Queue operations\<close>






subsection \<open>Handing out data and taking ACKs\<close>








subsection \<open>Hex strings and the DCCL head\<close>













text \<open>
  The head of a DCCL frame, decoded: CCL-id byte, DCCL message id, time of day,
  source and destination modem id, multi-message flag, broadcast flag.
  \<^verbatim>\<open>DCCLHeaderDecoder\<close> and \<^verbatim>\<open>DCCLHeaderEncoder\<close> are declared outside the files at
  hand; the pair of them is a parameter.
\<close>

record DCCLHeader =
  head_ccl_id :: nat
  head_dccl_id :: nat
  head_time :: nat
  head_src_id :: nat
  head_dest_id :: nat
  head_multimessage_flag :: bool
  head_broadcast_flag :: bool


subsection \<open>Stitching user-frames into a packet\<close>





subsection \<open>Receiving: unstitching and publishing\<close>








subsection \<open>Filling a packet\<close>



section \<open>libdccl: the default arithmetic field codec\<close>

text \<open>
  \<^verbatim>\<open>DCCLDefaultArithmeticFieldCodec<WireType, FieldType>\<close>, for the wire type
  \<^verbatim>\<open>double\<close>. A \<^verbatim>\<open>double\<close> is modelled by a real number: the arithmetic of the
  codec is exact in the model, and not-a-number and the infinities are left out.
\<close>

text \<open>
  Modelled from the spec: the class \<^verbatim>\<open>Bitset\<close> is not among the files at hand. A
  bitset is a run of bits of a given length that converts from and to an
  unsigned number; \<^verbatim>\<open>Bitset(size)\<close> is all zero, and \<^verbatim>\<open>Bitset(size, value)\<close> keeps
  the low \<open>size\<close> bits of the value.
\<close>

record Bitset =
  bitset_size :: nat
  bitset_value :: nat

definition Bitset_of :: "nat \<Rightarrow> nat \<Rightarrow> Bitset" where
  "Bitset_of n v = \<lparr>bitset_size = n, bitset_value = v mod 2 ^ n\<rparr>"

definition to_ulong :: "Bitset \<Rightarrow> nat" where
  "to_ulong bits = bitset_value bits"

text \<open>The options of a field: \<^verbatim>\<open>dccl.min\<close>, \<^verbatim>\<open>dccl.max\<close> and the optional
  \<^verbatim>\<open>dccl.precision\<close>.\<close>

record arith_field =
  dccl_min :: real
  dccl_max :: real
  dccl_precision :: "int option"

definition field_precision :: "arith_field \<Rightarrow> int" where
  "field_precision f = (case dccl_precision f of Some p \<Rightarrow> p | None \<Rightarrow> 0)"

text \<open>\<^verbatim>\<open>std::pow(10.0, precision())\<close>.\<close>

definition pow10 :: "int \<Rightarrow> real" where
  "pow10 p = 10 powi p"

text \<open>
  Modelled from the spec: \<^verbatim>\<open>goby::util::unbiased_round\<close> (goby/util/sci.h) is not
  among the files at hand. It rounds to the given number of decimals; the value
  half-way between two neighbours goes to the even one, so that rounding has no
  upward bias.
\<close>

definition unbiased_round :: "real \<Rightarrow> int \<Rightarrow> real" where
  "unbiased_round r dec =
     (let ex = pow10 dec;
          final = \<lfloor>r * ex\<rfloor>;
          s = r * ex - of_int final
      in if s < 1 / 2 \<or> (s = 1 / 2 \<and> even final) then of_int final / ex
         else (of_int final + 1) / ex)"

text \<open>
  Modelled from the spec: \<^verbatim>\<open>goby::util::as<unsigned long>\<close> (goby/util/string.h)
  is not among the files at hand. The conversion of a \<^verbatim>\<open>double\<close> to
  \<^verbatim>\<open>unsigned long\<close> keeps the whole part; an \<^verbatim>\<open>unsigned long\<close> has 64 bits.
\<close>

definition as_ulong :: "real \<Rightarrow> nat" where
  "as_ulong w = nat \<lfloor>w\<rfloor> mod 2 ^ 64"

text \<open>\<^verbatim>\<open>size()\<close>: one value is left for "unspecified", always encoded as 0.\<close>

definition NULL_VALUE :: real where
  "NULL_VALUE = 1"

definition arith_size :: "arith_field \<Rightarrow> nat" where
  "arith_size f =
     nat \<lceil>ln ((dccl_max f - dccl_min f) * pow10 (field_precision f) + 1 + NULL_VALUE) / ln 2\<rceil>"

text \<open>\<^verbatim>\<open>encode()\<close>, the encoding of an absent value.\<close>

definition arith_encode_empty :: "arith_field \<Rightarrow> Bitset" where
  "arith_encode_empty f = Bitset_of (arith_size f) 0"

text \<open>\<^verbatim>\<open>encode(const WireType& value)\<close>. The sum
  \<^verbatim>\<open>as<unsigned long>(wire_value)+1\<close> is taken in 64 bits.\<close>

definition arith_encode :: "arith_field \<Rightarrow> real \<Rightarrow> Bitset" where
  "arith_encode f v =
     (let wire_value = v in
      if wire_value < dccl_min f \<or> wire_value > dccl_max f then Bitset_of (arith_size f) 0
      else
        let wire_value = unbiased_round wire_value (field_precision f);
            wire_value = wire_value - dccl_min f;
            wire_value = wire_value * pow10 (field_precision f)
        in Bitset_of (arith_size f) ((as_ulong wire_value + 1) mod 2 ^ 64))"

text \<open>\<^verbatim>\<open>decode(Bitset* bits)\<close>: \<open>None\<close> stands for \<^verbatim>\<open>DCCLNullValueException\<close>, the
  absent value.\<close>

definition arith_decode :: "arith_field \<Rightarrow> Bitset \<Rightarrow> real option" where
  "arith_decode f bits =
     (let t = to_ulong bits in
      if t = 0 then None
      else Some (unbiased_round (real (t - 1) / pow10 (field_precision f) + dccl_min f)
                   (field_precision f)))"

section \<open>modemdriver: the Iridium shore driver\<close>

subsection \<open>Data model\<close>

text \<open>\<^verbatim>\<open>RATE_RUDICS\<close> and \<^verbatim>\<open>RATE_SBD\<close> (iridium\_driver\_common.h).\<close>

definition RATE_RUDICS :: int where
  "RATE_RUDICS = 1"

definition RATE_SBD :: int where
  "RATE_SBD = 0"

text \<open>
  \<^verbatim>\<open>class OnCallBase\<close>. Times are seconds as \<^verbatim>\<open>double\<close>, modelled by reals; the
  byte counts are \<^verbatim>\<open>int\<close>s, modelled without overflow.
\<close>

record OnCallBase =
  last_tx_time :: real
  last_rx_time :: real
  bye_received :: bool
  bye_sent :: bool
  total_bytes_sent :: int
  last_bytes_sent :: int

text \<open>The constructor reads the clock for \<^verbatim>\<open>last_tx_time_\<close>.\<close>

definition new_OnCallBase :: "real \<Rightarrow> OnCallBase" where
  "new_OnCallBase now =
     \<lparr>last_tx_time = now, last_rx_time = 0, bye_received = False, bye_sent = False,
      total_bytes_sent = 0, last_bytes_sent = 0\<rparr>"

definition last_rx_tx_time :: "OnCallBase \<Rightarrow> real" where
  "last_rx_tx_time oc = max (last_tx_time oc) (last_rx_time oc)"

definition set_last_bytes_sent :: "int \<Rightarrow> OnCallBase \<Rightarrow> OnCallBase" where
  "set_last_bytes_sent i oc = oc\<lparr>last_bytes_sent := i, total_bytes_sent := total_bytes_sent oc + i\<rparr>"

text \<open>
  \<^verbatim>\<open>RemoteNode\<close> is declared in iridium\_shore\_driver.h, which is not among the
  files at hand; the driver uses its member \<^verbatim>\<open>std::shared_ptr<OnCallBase> on_call\<close>,
  which is null when the remote is not on a call.
\<close>

record RemoteNode =
  on_call :: "OnCallBase option"

definition new_RemoteNode :: RemoteNode where
  "new_RemoteNode = \<lparr>on_call = None\<rparr>"

text \<open>The members of \<^verbatim>\<open>protobuf::ModemTransmission\<close> that the driver reads and
  writes; an unset optional member reads as its default.\<close>

datatype TransmissionType = DATA | ACK

record ModemTransmission =
  tx_src :: nat
  tx_dest :: nat
  tx_rate :: int
  tx_type :: TransmissionType
  tx_ack_requested :: bool
  tx_frame_start :: "nat option"
  tx_max_frame_bytes :: "nat option"
  tx_frame :: "string list"
  tx_acked_frame :: "nat list"

definition new_ModemTransmission :: ModemTransmission where
  "new_ModemTransmission =
     \<lparr>tx_src = 0, tx_dest = 0, tx_rate = 0, tx_type = DATA, tx_ack_requested = False,
      tx_frame_start = None, tx_max_frame_bytes = None, tx_frame = [], tx_acked_frame = []\<rparr>"

record DriverConfig =
  cfg_modem_id :: nat
  cfg_max_frame_size :: nat
  cfg_target_bit_rate :: int
  cfg_handshake_hangup_seconds :: int
  cfg_hangup_seconds_after_empty :: int

text \<open>
  The state of the driver: the configuration, \<^verbatim>\<open>std::map<ModemId, RemoteNode>
  remote_\<close> (an association list sorted by modem id), the bimap \<^verbatim>\<open>clients_\<close> between
  modem ids and RUDICS connections (a list of pairs; a connection is a handle),
  \<^verbatim>\<open>next_frame_\<close>, \<^verbatim>\<open>modem_id_to_imei_\<close> and \<^verbatim>\<open>rudics_mac_msg_\<close>.
\<close>

record IridiumShoreDriver =
  driver_cfg :: DriverConfig
  remote :: "(nat \<times> RemoteNode) list"
  clients :: "(nat \<times> nat) list"
  next_frame :: nat
  modem_id_to_imei :: "(nat \<times> string) list"
  rudics_mac_msg :: ModemTransmission

text \<open>
  What the driver does to the outside, in order: bytes written to a connection
  (\<^verbatim>\<open>write_start\<close>), a connection disconnected by the RUDICS server, a message
  raised on \<^verbatim>\<open>signal_receive\<close>, an SBD message handed to \<^verbatim>\<open>send_sbd_mt\<close> with its
  IMEI, and a packet failure counted on a connection.
\<close>

datatype driver_event =
    write_start nat string
  | disconnect nat
  | signal_receive ModemTransmission
  | send_sbd_mt string string
  | add_packet_failure nat

text \<open>
  The slots of the two signals of \<^verbatim>\<open>process_transmission\<close> and the packet
  serialisation (rudics\_packet.h and the DCCL codec of the header) are outside
  the files at hand; they are parameters. \<open>parse_packet\<close> yields \<open>None\<close> where
  the source throws \<^verbatim>\<open>RudicsPacketException\<close>.
\<close>

record driver_env =
  signal_modify_transmission :: "ModemTransmission \<Rightarrow> ModemTransmission"
  signal_data_request :: "ModemTransmission \<Rightarrow> ModemTransmission"
  serialize_packet :: "ModemTransmission \<Rightarrow> string"
  parse_packet :: "string \<Rightarrow> ModemTransmission option"

text \<open>Dereferencing a null \<^verbatim>\<open>on_call\<close> pointer ends the run.\<close>

datatype driver_error = null_on_call

subsection \<open>The map of remotes and the bimap of clients\<close>

text \<open>\<^verbatim>\<open>remote_[id]\<close> inserts a default node when the id is new.\<close>

fun remote_set :: "nat \<Rightarrow> RemoteNode \<Rightarrow> (nat \<times> RemoteNode) list \<Rightarrow> (nat \<times> RemoteNode) list" where
  "remote_set k v [] = [(k, v)]"
| "remote_set k v (p # ps) =
     (if k = fst p then (k, v) # ps
      else if k < fst p then (k, v) # p # ps
      else p # remote_set k v ps)"

definition remote_get :: "nat \<Rightarrow> (nat \<times> RemoteNode) list \<Rightarrow> RemoteNode" where
  "remote_get k ps = (case map_of ps k of Some r \<Rightarrow> r | None \<Rightarrow> new_RemoteNode)"

definition remote_index :: "nat \<Rightarrow> (nat \<times> RemoteNode) list \<Rightarrow> (nat \<times> RemoteNode) list" where
  "remote_index k ps = (case map_of ps k of Some r \<Rightarrow> ps | None \<Rightarrow> remote_set k new_RemoteNode ps)"

text \<open>\<^verbatim>\<open>clients_.left.insert\<close>: a bimap refuses a pair whose id or whose
  connection is already present.\<close>

definition clients_insert :: "nat \<Rightarrow> nat \<Rightarrow> (nat \<times> nat) list \<Rightarrow> (nat \<times> nat) list" where
  "clients_insert mid connection cs =
     (if mid \<in> fst ` set cs \<or> connection \<in> snd ` set cs then cs else cs @ [(mid, connection)])"

definition clients_left_find :: "(nat \<times> nat) list \<Rightarrow> nat \<Rightarrow> nat option" where
  "clients_left_find cs mid = map_of cs mid"

definition clients_right_find :: "(nat \<times> nat) list \<Rightarrow> nat \<Rightarrow> nat option" where
  "clients_right_find cs connection = map_option fst (find (\<lambda>p. snd p = connection) cs)"

subsection \<open>Sending\<close>

definition bye_line :: string where
  "bye_line = ''bye'' @ [CHR 0x0D]"

definition goby_line :: string where
  "goby_line = ''goby'' @ [CHR 0x0D]"

text \<open>\<^verbatim>\<open>IridiumShoreDriver::rudics_send\<close>.\<close>

definition rudics_send :: "IridiumShoreDriver \<Rightarrow> string \<Rightarrow> nat \<Rightarrow> driver_event list" where
  "rudics_send d data mid =
     (case clients_left_find (clients d) mid of
        Some connection \<Rightarrow> [write_start connection data]
      | None \<Rightarrow> [])"

text \<open>\<^verbatim>\<open>IridiumShoreDriver::send\<close>; \<open>t\<close> is the clock as \<^verbatim>\<open>send\<close> reads it.\<close>

definition send :: "driver_env \<Rightarrow> real \<Rightarrow> IridiumShoreDriver \<Rightarrow> ModemTransmission \<Rightarrow>
    driver_error + IridiumShoreDriver \<times> driver_event list" where
  "send E t d msg =
     (let d1 = d\<lparr>remote := remote_index (tx_dest msg) (remote d)\<rparr>;
          remote_node = remote_get (tx_dest msg) (remote d1)
      in
      if tx_rate msg = RATE_RUDICS \<or> on_call remote_node \<noteq> None then
        (let rudics_packet = serialize_packet E msg;
             written = rudics_send d1 rudics_packet (tx_dest msg)
         in case on_call remote_node of
              None \<Rightarrow> Inl null_on_call
            | Some on_call_base \<Rightarrow>
                Inr (d1\<lparr>remote := remote_set (tx_dest msg)
                          (remote_node\<lparr>on_call := Some (set_last_bytes_sent (int (length rudics_packet))
                             (on_call_base\<lparr>last_tx_time := t\<rparr>))\<rparr>) (remote d1)\<rparr>,
                     written))
      else if tx_rate msg = RATE_SBD then
        (let sbd_packet = serialize_packet E msg in
         case map_of (modem_id_to_imei d1) (tx_dest msg) of
           Some imei \<Rightarrow> Inr (d1, [send_sbd_mt sbd_packet imei])
         | None \<Rightarrow> Inr (d1, []))
      else Inr (d1, []))"

text \<open>\<^verbatim>\<open>IridiumShoreDriver::process_transmission\<close>.\<close>

definition process_transmission :: "driver_env \<Rightarrow> real \<Rightarrow> IridiumShoreDriver \<Rightarrow> ModemTransmission \<Rightarrow>
    driver_error + IridiumShoreDriver \<times> driver_event list" where
  "process_transmission E t d msg =
     (let msg = signal_modify_transmission E msg;
          msg = (if tx_frame_start msg = None then msg\<lparr>tx_frame_start := Some (next_frame d)\<rparr> else msg);
          msg = (case tx_max_frame_bytes msg of
                   None \<Rightarrow> msg\<lparr>tx_max_frame_bytes := Some (cfg_max_frame_size (driver_cfg d))\<rparr>
                 | Some b \<Rightarrow>
                     if b > cfg_max_frame_size (driver_cfg d)
                     then msg\<lparr>tx_max_frame_bytes := Some (cfg_max_frame_size (driver_cfg d))\<rparr>
                     else msg);
          msg = signal_data_request E msg;
          d1 = d\<lparr>next_frame := next_frame d + length (tx_frame msg)\<rparr>
      in
      if \<not> (length (tx_frame msg) = 0 \<or> hd (tx_frame msg) = []) then send E t d1 msg
      else Inr (d1, []))"

text \<open>\<^verbatim>\<open>IridiumShoreDriver::receive\<close>.\<close>

definition receive :: "driver_env \<Rightarrow> real \<Rightarrow> IridiumShoreDriver \<Rightarrow> ModemTransmission \<Rightarrow>
    driver_error + IridiumShoreDriver \<times> driver_event list" where
  "receive E t d msg =
     (if tx_type msg = DATA \<and> tx_ack_requested msg \<and> tx_dest msg = cfg_modem_id (driver_cfg d) then
        (let frame_start = (case tx_frame_start msg of None \<Rightarrow> 0 | Some i \<Rightarrow> i);
             ack = new_ModemTransmission
               \<lparr>tx_type := ACK, tx_src := tx_dest msg, tx_dest := tx_src msg, tx_rate := tx_rate msg,
                tx_acked_frame := [frame_start ..< length (tx_frame msg) + frame_start]\<rparr>
         in case send E t d ack of
              Inl e \<Rightarrow> Inl e
            | Inr (d1, written) \<Rightarrow> Inr (d1, written @ [signal_receive msg]))
      else Inr (d, [signal_receive msg]))"

subsection \<open>do\_work\<close>

text \<open>
  The pacing test of \<^verbatim>\<open>do_work\<close>: \<^verbatim>\<open>now > last_tx_time + send_wait\<close> with
  \<^verbatim>\<open>send_wait = last_bytes_sent / (target_bit_rate / 8.0)\<close>. With a target bit rate
  of 0 the quotient is infinite or not a number, and the comparison is false.
\<close>

definition pacing_due :: "DriverConfig \<Rightarrow> real \<Rightarrow> OnCallBase \<Rightarrow> bool" where
  "pacing_due cfg now on_call_base =
     (cfg_target_bit_rate cfg \<noteq> 0 \<and>
      now > last_tx_time on_call_base +
        of_int (last_bytes_sent on_call_base) / (of_int (cfg_target_bit_rate cfg) / 8))"

text \<open>
  The body of the loop over \<^verbatim>\<open>remote_\<close> has three parts. The first pushes data
  at the target rate: when the slot is due and no bye has been sent,
  \<^verbatim>\<open>rudics_mac_msg_\<close> is addressed to the remote and processed.
\<close>

definition push_data :: "driver_env \<Rightarrow> real \<Rightarrow> real \<Rightarrow> IridiumShoreDriver \<Rightarrow> nat \<Rightarrow> OnCallBase \<Rightarrow>
    driver_error + IridiumShoreDriver \<times> driver_event list" where
  "push_data E now t d mid on_call_base =
     (if pacing_due (driver_cfg d) now on_call_base then
        (if \<not> bye_sent on_call_base then
           (let d1 = d\<lparr>rudics_mac_msg := (rudics_mac_msg d)\<lparr>tx_dest := mid\<rparr>\<rparr>
            in process_transmission E t d1 (rudics_mac_msg d1))
         else Inr (d, []))
      else Inr (d, []))"

text \<open>The second part sends the bye: the condition, and the write with the flag
  set in the record that \<^verbatim>\<open>on_call_base\<close> points to.\<close>

definition bye_due :: "DriverConfig \<Rightarrow> real \<Rightarrow> OnCallBase \<Rightarrow> bool" where
  "bye_due cfg now on_call_base =
     (\<not> bye_sent on_call_base \<and>
      now > last_tx_time on_call_base + of_int (cfg_handshake_hangup_seconds cfg))"

definition send_bye :: "real \<Rightarrow> IridiumShoreDriver \<Rightarrow> nat \<Rightarrow> OnCallBase \<Rightarrow>
    OnCallBase \<times> driver_event list" where
  "send_bye now d mid on_call_base =
     (if bye_due (driver_cfg d) now on_call_base
      then (on_call_base\<lparr>bye_sent := True\<rparr>, rudics_send d bye_line mid)
      else (on_call_base, []))"

text \<open>The third part hangs up: the connection of the remote, if there is one, is
  disconnected, and the on-call record of the remote is dropped.\<close>

definition hangup_due :: "DriverConfig \<Rightarrow> real \<Rightarrow> OnCallBase \<Rightarrow> bool" where
  "hangup_due cfg now on_call_base =
     ((bye_received on_call_base \<and> bye_sent on_call_base) \<or>
      now > last_rx_tx_time on_call_base + of_int (cfg_hangup_seconds_after_empty cfg))"

definition hangup :: "real \<Rightarrow> IridiumShoreDriver \<Rightarrow> nat \<Rightarrow> OnCallBase \<Rightarrow>
    IridiumShoreDriver \<times> driver_event list" where
  "hangup now d mid on_call_base =
     (if hangup_due (driver_cfg d) now on_call_base
      then (d\<lparr>remote := remote_set mid ((remote_get mid (remote d))\<lparr>on_call := None\<rparr>) (remote d)\<rparr>,
            (case clients_left_find (clients d) mid of
               Some connection \<Rightarrow> [disconnect connection]
             | None \<Rightarrow> []))
      else (d\<lparr>remote := remote_set mid ((remote_get mid (remote d))\<lparr>on_call := Some on_call_base\<rparr>) (remote d)\<rparr>,
            []))"

text \<open>
  The body of the loop for one entry of \<^verbatim>\<open>remote_\<close>. \<^verbatim>\<open>on_call_base\<close> is a shared
  pointer to the record of the remote: after the first part the record is read
  again, since \<^verbatim>\<open>send\<close> writes the time and size of a transmission into it.
\<close>

definition do_work_remote :: "driver_env \<Rightarrow> real \<Rightarrow> real \<Rightarrow> IridiumShoreDriver \<Rightarrow> nat \<Rightarrow>
    driver_error + IridiumShoreDriver \<times> driver_event list" where
  "do_work_remote E now t d mid =
     (case on_call (remote_get mid (remote d)) of
        None \<Rightarrow> Inr (d, [])
      | Some on_call_base \<Rightarrow>
          (case push_data E now t d mid on_call_base of
             Inl e \<Rightarrow> Inl e
           | Inr (d1, pushed) \<Rightarrow>
               let on_call_base1 = (case on_call (remote_get mid (remote d1)) of
                                      Some oc \<Rightarrow> oc | None \<Rightarrow> on_call_base);
                   (on_call_base2, bye) = send_bye now d1 mid on_call_base1;
                   (d3, hung) = hangup now d1 mid on_call_base2
               in Inr (d3, pushed @ bye @ hung)))"

text \<open>\<^verbatim>\<open>IridiumShoreDriver::do_work\<close>, for the remotes present when it starts; the
  polls of the I/O reactors at its end run the handlers of the next subsection.\<close>

fun do_work_loop :: "driver_env \<Rightarrow> real \<Rightarrow> real \<Rightarrow> nat list \<Rightarrow> IridiumShoreDriver \<Rightarrow>
    driver_error + IridiumShoreDriver \<times> driver_event list" where
  "do_work_loop E now t [] d = Inr (d, [])"
| "do_work_loop E now t (mid # mids) d =
     (case do_work_remote E now t d mid of
        Inl e \<Rightarrow> Inl e
      | Inr (d1, evs) \<Rightarrow>
          (case do_work_loop E now t mids d1 of
             Inl e \<Rightarrow> Inl e
           | Inr (d2, evs') \<Rightarrow> Inr (d2, evs @ evs')))"

definition do_work :: "driver_env \<Rightarrow> real \<Rightarrow> real \<Rightarrow> IridiumShoreDriver \<Rightarrow>
    driver_error + IridiumShoreDriver \<times> driver_event list" where
  "do_work E now t d = do_work_loop E now t (map fst (remote d)) d"

subsection \<open>Lines from a RUDICS connection\<close>

text \<open>
  \<^verbatim>\<open>IridiumShoreDriver::rudics_line\<close>. The second operand of the first test is
  the string literal \<^verbatim>\<open>"\0goby\r"\<close> compared as a C string, which ends at its first
  character: that comparison holds for the empty line only.
\<close>

definition rudics_line :: "driver_env \<Rightarrow> real \<Rightarrow> IridiumShoreDriver \<Rightarrow> string \<Rightarrow> nat \<Rightarrow>
    driver_error + IridiumShoreDriver \<times> driver_event list" where
  "rudics_line E now d data connection =
     (if data = goby_line \<or> data = [] then Inr (d, [])
      else if data = bye_line then
        (case clients_right_find (clients d) connection of
           Some mid \<Rightarrow>
             (let d1 = d\<lparr>remote := remote_index mid (remote d)\<rparr> in
              case on_call (remote_get mid (remote d1)) of
                None \<Rightarrow> Inl null_on_call
              | Some oc \<Rightarrow>
                  Inr (d1\<lparr>remote := remote_set mid
                            ((remote_get mid (remote d1))\<lparr>on_call := Some (oc\<lparr>bye_received := True\<rparr>)\<rparr>)
                            (remote d1)\<rparr>, []))
         | None \<Rightarrow> Inr (d, []))
      else
        (case parse_packet E data of
           None \<Rightarrow> Inr (d, [add_packet_failure connection])
         | Some modem_msg \<Rightarrow>
             (let d1 = (if clients_left_find (clients d) (tx_src modem_msg) = None
                        then d\<lparr>clients := clients_insert (tx_src modem_msg) connection (clients d),
                               remote := remote_set (tx_src modem_msg)
                                 ((remote_get (tx_src modem_msg) (remote d))
                                    \<lparr>on_call := Some (new_OnCallBase now)\<rparr>) (remote d)\<rparr>
                        else d);
                  d2 = d1\<lparr>remote := remote_index (tx_src modem_msg) (remote d1)\<rparr>
              in case on_call (remote_get (tx_src modem_msg) (remote d2)) of
                   None \<Rightarrow> Inl null_on_call
                 | Some oc \<Rightarrow>
                     receive E now
                       (d2\<lparr>remote := remote_set (tx_src modem_msg)
                             ((remote_get (tx_src modem_msg) (remote d2))
                                \<lparr>on_call := Some (oc\<lparr>last_rx_time := now\<rparr>)\<rparr>) (remote d2)\<rparr>)
                       modem_msg)))"

section \<open>Concrete configurations\<close>

text \<open>Small managers, queues and polls on which the theorems below are
  instantiated.\<close>





definition example_valid :: "DCCLHeader \<Rightarrow> bool" where
  "example_valid h =
     (head_ccl_id h < 256 \<and> head_dccl_id h < 256 \<and> head_time h < 256 \<and>
      head_src_id h < 256 \<and> head_dest_id h < 256)"

definition C6_manager :: QueueManager where
  "C6_manager = \<lparr>modem_id = 1, queues = [((queue_dccl, 5), new_Queue \<lparr>cfg_type = queue_dccl, cfg_id = 5,
      cfg_name = ''status'', cfg_newest_first = False\<rparr>)], waiting_for_ack = [], packet_ack = False\<rparr>"

definition C4_queue :: "QueueType \<Rightarrow> nat \<Rightarrow> QueueKey \<times> Queue" where
  "C4_queue t i = ((t, i), new_Queue \<lparr>cfg_type = t, cfg_id = i, cfg_name = [], cfg_newest_first = False\<rparr>)"

definition C4_manager :: QueueManager where
  "C4_manager = \<lparr>modem_id = 1,
     queues = [C4_queue queue_dccl 1, C4_queue queue_dccl 2, C4_queue queue_dccl 3, C4_queue queue_ccl 4],
     waiting_for_ack = [], packet_ack = False\<rparr>"

definition C4_poll :: "QueueKey \<times> Queue \<Rightarrow> (real \<times> nat) option" where
  "C4_poll oq =
     (if snd (fst oq) = 1 then Some (2, 30)
      else if snd (fst oq) = 2 then Some (2, 10)
      else if snd (fst oq) = 3 then None
      else Some (5, 0))"



definition C1_field :: arith_field where
  "C1_field = \<lparr>dccl_min = - 5, dccl_max = 10, dccl_precision = Some 1\<rparr>"




text \<open>
  An environment and a driver to instantiate the theorems on: the data request
  answers with the given frames, a packet is the text \<open>pkt:\<close> followed by the
  frames, and every packet comes from modem 3. The driver is idle, or has modem 3
  on a call on connection 7.
\<close>

definition example_env :: "string list \<Rightarrow> driver_env" where
  "example_env frames =
     \<lparr>signal_modify_transmission = (\<lambda>m. m),
      signal_data_request = (\<lambda>m. m\<lparr>tx_frame := frames\<rparr>),
      serialize_packet = (\<lambda>m. ''pkt:'' @ concat (tx_frame m)),
      parse_packet = (\<lambda>s. if take 4 s = ''pkt:''
         then Some (new_ModemTransmission\<lparr>tx_src := 3, tx_dest := 1, tx_rate := RATE_RUDICS, tx_frame := [drop 4 s]\<rparr>)
         else None)\<rparr>"

definition example_driver :: "OnCallBase option \<Rightarrow> IridiumShoreDriver" where
  "example_driver oc =
     \<lparr>driver_cfg = \<lparr>cfg_modem_id = 1, cfg_max_frame_size = 1500, cfg_target_bit_rate = 2400,
                     cfg_handshake_hangup_seconds = 5, cfg_hangup_seconds_after_empty = 30\<rparr>,
      remote = (case oc of None \<Rightarrow> [] | Some c \<Rightarrow> [(3, \<lparr>on_call = Some c\<rparr>)]),
      clients = (case oc of None \<Rightarrow> [] | Some c \<Rightarrow> [(3, 7)]),
      next_frame = 0,
      modem_id_to_imei = [],
      rudics_mac_msg = new_ModemTransmission\<lparr>tx_src := 1, tx_type := DATA, tx_rate := RATE_RUDICS\<rparr>\<rparr>"

definition example_on_call :: "real \<Rightarrow> bool \<Rightarrow> OnCallBase" where
  "example_on_call tx received =
     \<lparr>last_tx_time = tx, last_rx_time = 100, bye_received = received, bye_sent = False,
      total_bytes_sent = 10, last_bytes_sent = 10\<rparr>"

definition total_messages :: "QueueManager \<Rightarrow> nat" where
  "total_messages m = sum_list (map (\<lambda>kq. length (q_messages (snd kq))) (queues m))"

definition queues_ok :: "QueueManager \<Rightarrow> bool" where
  "queues_ok m = (distinct (map fst (queues m)) \<and>
     (\<forall>kq\<in>set (queues m). distinct (map fst (q_messages (snd kq)))))"










section \<open>Verification\<close>

subsection \<open>Registering a queue\<close>

lemma map_of_append_new:
  "k \<notin> fst ` set qs \<Longrightarrow> map_of (qs @ [(k, q)]) = (map_of qs)(k \<mapsto> q)"
  by (induction qs) auto

lemma q_cfg_new_Queue: "q_cfg (new_Queue cfg) = cfg"
  by (simp add: new_Queue_def)

text \<open>
  C6, as the code has it. \<^verbatim>\<open>add_queue\<close> fails with the duplicate-key error for
  every configuration whose (kind, id) is already registered. Otherwise it fails
  with the id-too-large error exactly for a DCCL queue whose id exceeds
  \<^verbatim>\<open>MAX_ID\<close>; the id of a CCL queue is not checked. On success the registered
  queues grow by exactly the new key, bound to a fresh queue of that
  configuration, and nothing else of the manager changes.
\<close>

theorem add_queue_registers:
  "(queues_count m (cfg_type cfg, cfg_id cfg) \<longrightarrow>
      add_queue MAX_ID m cfg = Inl (DuplicateKey (cfg_type cfg, cfg_id cfg))) \<and>
   (\<not> queues_count m (cfg_type cfg, cfg_id cfg) \<and> cfg_type cfg = queue_dccl \<and> cfg_id cfg > MAX_ID \<longrightarrow>
      add_queue MAX_ID m cfg = Inl (IdTooLarge (cfg_type cfg, cfg_id cfg) MAX_ID)) \<and>
   (\<not> queues_count m (cfg_type cfg, cfg_id cfg) \<and> (cfg_type cfg = queue_ccl \<or> cfg_id cfg \<le> MAX_ID) \<longrightarrow>
      (\<exists>m'. add_queue MAX_ID m cfg = Inr m' \<and>
         fst ` set (queues m') = insert (cfg_type cfg, cfg_id cfg) (fst ` set (queues m)) \<and>
         map_of (queues m') = (map_of (queues m))((cfg_type cfg, cfg_id cfg) \<mapsto> new_Queue cfg) \<and>
         modem_id m' = modem_id m \<and> waiting_for_ack m' = waiting_for_ack m \<and>
         packet_ack m' = packet_ack m))"
  by (cases "cfg_type cfg")
     (auto simp: add_queue_def Let_def queues_count_def map_of_append_new q_cfg_new_Queue
           simp del: map_of_append)

theorem add_queue_registers_witness:
  "add_queue 511 C6_manager \<lparr>cfg_type = queue_dccl, cfg_id = 5, cfg_name = ''again'', cfg_newest_first = True\<rparr>
     = Inl (DuplicateKey (queue_dccl, 5)) \<and>
   add_queue 511 C6_manager \<lparr>cfg_type = queue_dccl, cfg_id = 512, cfg_name = ''big'', cfg_newest_first = True\<rparr>
     = Inl (IdTooLarge (queue_dccl, 512) 511) \<and>
   (\<exists>m'. add_queue 511 C6_manager \<lparr>cfg_type = queue_dccl, cfg_id = 6, cfg_name = ''new'', cfg_newest_first = True\<rparr>
     = Inr m' \<and> fst ` set (queues m') = {(queue_dccl, 6), (queue_dccl, 5)})"
  using add_queue_registers [of C6_manager "\<lparr>cfg_type = queue_dccl, cfg_id = 5, cfg_name = ''again'', cfg_newest_first = True\<rparr>" 511]
    add_queue_registers [of C6_manager "\<lparr>cfg_type = queue_dccl, cfg_id = 512, cfg_name = ''big'', cfg_newest_first = True\<rparr>" 511]
    add_queue_registers [of C6_manager "\<lparr>cfg_type = queue_dccl, cfg_id = 6, cfg_name = ''new'', cfg_newest_first = True\<rparr>" 511]
  by (auto simp: C6_manager_def queues_count_def)

text \<open>
  C6 as stated fails for CCL queues: the guard of the id check excludes them, so a
  CCL queue with id 600 (above 31 and above \<^verbatim>\<open>MAX_ID\<close> = 511) is registered.
\<close>

theorem add_queue_ccl_id_unchecked:
  "add_queue 511 \<lparr>modem_id = 1, queues = [], waiting_for_ack = [], packet_ack = False\<rparr>
      \<lparr>cfg_type = queue_ccl, cfg_id = 600, cfg_name = ''ccl'', cfg_newest_first = False\<rparr>
   = Inr \<lparr>modem_id = 1,
          queues = [((queue_ccl, 600), new_Queue \<lparr>cfg_type = queue_ccl, cfg_id = 600, cfg_name = ''ccl'',
                       cfg_newest_first = False\<rparr>)],
          waiting_for_ack = [], packet_ack = False\<rparr>"
  by (simp add: add_queue_def queues_count_def new_Queue_def)


subsection \<open>The priority contest\<close>

lemma at_least_as_good_trans:
  "at_least_as_good a b \<Longrightarrow> at_least_as_good b c \<Longrightarrow> at_least_as_good a c"
  by (auto simp: at_least_as_good_def)

lemma beats_Some:
  "beats p l (Some (p0, l0, oq0)) \<Longrightarrow> at_least_as_good (p, l) (p0, l0)"
  by (auto simp: beats_def at_least_as_good_def)

lemma not_beats_Some:
  "\<not> beats p l (Some (p0, l0, oq0)) \<Longrightarrow> at_least_as_good (p0, l0) (p, l)"
  by (auto simp: beats_def at_least_as_good_def)

lemma contest_None_iff:
  "contest pv n qs w0 = None \<longleftrightarrow> w0 = None \<and> (\<forall>oq\<in>set qs. \<not> eligible pv n oq)"
  by (induction qs arbitrary: w0) (auto simp: eligible_def beats_def split: option.splits)

lemma contest_member:
  "contest pv n qs w0 = Some (p, l, oq) \<Longrightarrow>
     w0 = Some (p, l, oq) \<or> (oq \<in> set qs \<and> eligible pv n oq \<and> pv oq = Some (p, l))"
proof (induction qs arbitrary: w0)
  case Nil
  then show ?case by simp
next
  case (Cons a qs)
  then show ?case
    by (fastforce simp: eligible_def split: option.splits if_splits)
qed

lemma contest_dominates_start:
  "contest pv n qs (Some (p0, l0, oq0)) = Some (p, l, oq) \<Longrightarrow> at_least_as_good (p, l) (p0, l0)"
proof (induction qs arbitrary: p0 l0 oq0)
  case Nil
  then show ?case by (simp add: at_least_as_good_def)
next
  case (Cons a qs)
  show ?case
  proof (cases "pv a")
    case None
    with Cons show ?thesis by simp
  next
    case (Some pl)
    obtain p1 l1 where pl: "pl = (p1, l1)" by (cases pl)
    show ?thesis
    proof (cases "beats p1 l1 (Some (p0, l0, oq0)) \<and> \<not> (cfg_type (q_cfg (snd a)) = queue_ccl \<and> n > 0)")
      case True
      with Cons.prems Some pl have "contest pv n qs (Some (p1, l1, a)) = Some (p, l, oq)" by simp
      from Cons.IH[OF this] have "at_least_as_good (p, l) (p1, l1)" .
      moreover from True have "at_least_as_good (p1, l1) (p0, l0)" by (auto intro: beats_Some)
      ultimately show ?thesis by (rule at_least_as_good_trans)
    next
      case False
      with Cons.prems Some pl have "contest pv n qs (Some (p0, l0, oq0)) = Some (p, l, oq)" by auto
      from Cons.IH[OF this] show ?thesis .
    qed
  qed
qed

lemma contest_dominates_list:
  "contest pv n qs w0 = Some (p, l, oq) \<Longrightarrow> oq' \<in> set qs \<Longrightarrow> eligible pv n oq' \<Longrightarrow>
     pv oq' = Some (p', l') \<Longrightarrow> at_least_as_good (p, l) (p', l')"
proof (induction qs arbitrary: w0)
  case Nil
  then show ?case by simp
next
  case (Cons a qs)
  show ?case
  proof (cases "pv a")
    case None
    with Cons.prems have "contest pv n qs w0 = Some (p, l, oq)" and "oq' \<in> set qs"
      by auto
    then show ?thesis using Cons.IH Cons.prems(3,4) by blast
  next
    case (Some pl)
    obtain p1 l1 where pl: "pl = (p1, l1)" by (cases pl)
    show ?thesis
    proof (cases "beats p1 l1 w0 \<and> \<not> (cfg_type (q_cfg (snd a)) = queue_ccl \<and> n > 0)")
      case True
      with Cons.prems Some pl have c: "contest pv n qs (Some (p1, l1, a)) = Some (p, l, oq)" by simp
      show ?thesis
      proof (cases "oq' = a")
        case True
        with Cons.prems(4) Some pl have "p' = p1" "l' = l1" by auto
        with contest_dominates_start[OF c] show ?thesis by simp
      next
        case False
        with Cons.prems(2) have "oq' \<in> set qs" by simp
        from Cons.IH[OF c this Cons.prems(3,4)] show ?thesis .
      qed
    next
      case False
      with Cons.prems Some pl have c: "contest pv n qs w0 = Some (p, l, oq)" by auto
      show ?thesis
      proof (cases "oq' = a")
        case True
        with Cons.prems(3,4) Some pl False have nb: "\<not> beats p' l' w0" and "p1 = p'" "l1 = l'"
          by (auto simp: eligible_def)
        then obtain p0 l0 oq0 where w0: "w0 = Some (p0, l0, oq0)"
          by (cases w0) (auto simp: beats_def)
        from nb w0 have "at_least_as_good (p0, l0) (p', l')" by (simp add: not_beats_Some)
        moreover from c w0 have "at_least_as_good (p, l) (p0, l0)"
          by (auto dest: contest_dominates_start)
        ultimately show ?thesis by (rule at_least_as_good_trans[rotated])
      next
        case False
        with Cons.prems(2) have "oq' \<in> set qs" by simp
        from Cons.IH[OF c this Cons.prems(3,4)] show ?thesis .
      qed
    qed
  qed
qed


text \<open>
  C4. The contest returns no winner exactly when no queue is eligible, that is
  reports a value and is not a CCL queue polled for a user-frame after the first.
  A winner is an eligible queue of the manager, it is not a CCL queue when the
  user-frame index is positive, and every eligible queue has a smaller priority,
  or the same priority and a last send time that is not older.
\<close>

theorem find_next_sender_winner:
  "(find_next_sender pv m n = None \<longleftrightarrow> (\<forall>oq\<in>set (queues m). \<not> eligible pv n oq)) \<and>
   (\<forall>w. find_next_sender pv m n = Some w \<longrightarrow>
      w \<in> set (queues m) \<and> eligible pv n w \<and>
      (n > 0 \<longrightarrow> cfg_type (q_cfg (snd w)) \<noteq> queue_ccl) \<and>
      (\<forall>oq\<in>set (queues m). \<forall>p l p' l'. eligible pv n oq \<and> pv w = Some (p, l) \<and> pv oq = Some (p', l') \<longrightarrow>
         p' < p \<or> (p' = p \<and> l \<le> l')))"
proof (intro conjI allI impI)
  show "find_next_sender pv m n = None \<longleftrightarrow> (\<forall>oq\<in>set (queues m). \<not> eligible pv n oq)"
    by (simp add: find_next_sender_def contest_None_iff)
next
  fix w
  assume "find_next_sender pv m n = Some w"
  then obtain p l where c: "contest pv n (queues m) None = Some (p, l, w)"
    by (auto simp: find_next_sender_def)
  from contest_member[OF c] have mem: "w \<in> set (queues m)" "eligible pv n w" "pv w = Some (p, l)"
    by auto
  show "w \<in> set (queues m)" "eligible pv n w" by fact+
  show "cfg_type (q_cfg (snd w)) \<noteq> queue_ccl" if "n > 0"
    using mem(2) that by (auto simp: eligible_def)
  show "\<forall>oq\<in>set (queues m). \<forall>p l p' l'. eligible pv n oq \<and> pv w = Some (p, l) \<and> pv oq = Some (p', l') \<longrightarrow>
         p' < p \<or> (p' = p \<and> l \<le> l')"
    using contest_dominates_list[OF c] mem(3) by (auto simp: at_least_as_good_def)
qed

theorem find_next_sender_winner_witness:
  "find_next_sender C4_poll C4_manager 1 = Some (C4_queue queue_dccl 2) \<and>
   eligible C4_poll 1 (C4_queue queue_dccl 2) \<and>
   cfg_type (q_cfg (snd (C4_queue queue_dccl 2))) \<noteq> queue_ccl \<and>
   find_next_sender C4_poll C4_manager 0 = Some (C4_queue queue_ccl 4) \<and>
   find_next_sender C4_poll (C4_manager\<lparr>queues := [C4_queue queue_dccl 3, C4_queue queue_ccl 4]\<rparr>) 1 = None"
proof -
  have a: "find_next_sender C4_poll C4_manager 1 = Some (C4_queue queue_dccl 2)"
    by (simp add: find_next_sender_def C4_manager_def C4_poll_def C4_queue_def beats_def new_Queue_def)
  have b: "find_next_sender C4_poll C4_manager 0 = Some (C4_queue queue_ccl 4)"
    by (simp add: find_next_sender_def C4_manager_def C4_poll_def C4_queue_def beats_def new_Queue_def)
  have c: "\<forall>oq\<in>set (queues (C4_manager\<lparr>queues := [C4_queue queue_dccl 3, C4_queue queue_ccl 4]\<rparr>)).
             \<not> eligible C4_poll 1 oq"
    by (simp add: eligible_def C4_poll_def C4_queue_def new_Queue_def)
  from a b c find_next_sender_winner [of C4_poll C4_manager 1]
    find_next_sender_winner [of C4_poll "C4_manager\<lparr>queues := [C4_queue queue_dccl 3, C4_queue queue_ccl 4]\<rparr>" 1]
  show ?thesis by simp
qed

subsection \<open>Publishing incoming user-frames\<close>













subsection \<open>The default arithmetic codec\<close>







lemma ceiling_log2_eq:
  fixes X :: real
  assumes "2 ^ n < X" "X \<le> 2 ^ Suc n"
  shows "nat \<lceil>ln X / ln 2\<rceil> = Suc n"
proof -
  have "(0::real) < 2 ^ n" by simp
  with assms(1) have X: "0 < X" by linarith
  have l: "ln X / ln 2 = log 2 X" by (simp add: log_def)
  have "real n < log 2 X"
    using assms(1) X by (simp add: less_log_iff powr_realpow)
  moreover have "log 2 X \<le> real (Suc n)"
    using assms(2) X by (simp add: log_le_iff powr_realpow del: power_Suc of_nat_Suc)
  ultimately have "\<lceil>log 2 X\<rceil> = int (Suc n)"
    by (intro ceiling_unique) auto
  then show ?thesis by (simp add: l)
qed






lemma C1_field_size: "arith_size C1_field = 8"
  unfolding arith_size_def
  by (rule ceiling_log2_eq [where n = 7, simplified])
     (simp_all add: C1_field_def field_precision_def pow10_def NULL_VALUE_def)




text \<open>
  C2. A value strictly below the declared minimum or strictly above the declared
  maximum is encoded as the all-zero bitset of the field's width, the same as the
  encoding of an absent value: its wire integer is 0 and it decodes to absent.
\<close>

theorem arith_encode_out_of_range:
  assumes "x < dccl_min f \<or> x > dccl_max f"
  shows "arith_encode f x = Bitset_of (arith_size f) 0 \<and>
         arith_encode f x = arith_encode_empty f \<and>
         bitset_size (arith_encode f x) = arith_size f \<and>
         to_ulong (arith_encode f x) = 0 \<and>
         arith_decode f (arith_encode f x) = None"
  using assms
  by (auto simp: arith_encode_def arith_encode_empty_def Bitset_of_def to_ulong_def arith_decode_def)

theorem arith_encode_out_of_range_witness:
  "to_ulong (arith_encode C1_field 11) = 0 \<and> to_ulong (arith_encode C1_field (- 6)) = 0 \<and>
   bitset_size (arith_encode C1_field 11) = 8 \<and>
   arith_decode C1_field (arith_encode C1_field 11) = None"
proof -
  have h1: "11 < dccl_min C1_field \<or> 11 > dccl_max C1_field"
    and h2: "- 6 < dccl_min C1_field \<or> - 6 > dccl_max C1_field"
    by (simp_all add: C1_field_def)
  from arith_encode_out_of_range[OF h1] arith_encode_out_of_range[OF h2]
  show ?thesis by (simp add: C1_field_size Bitset_of_def to_ulong_def arith_decode_def)
qed

subsection \<open>The Iridium shore driver\<close>

lemma map_of_remote_set: "map_of (remote_set k v ps) = (map_of ps)(k \<mapsto> v)"
  by (induction ps) (auto simp: fun_eq_iff)

lemma remote_get_set: "remote_get k' (remote_set k v ps) = (if k' = k then v else remote_get k' ps)"
  by (simp add: remote_get_def map_of_remote_set)

lemma remote_get_index: "remote_get k' (remote_index k ps) = remote_get k' ps"
  by (auto simp: remote_index_def remote_get_def map_of_remote_set split: option.splits)


lemma send_frame:
  assumes "send E t d msg = Inr (d', evs)"
  shows "clients d' = clients d" "driver_cfg d' = driver_cfg d" "next_frame d' = next_frame d"
    "rudics_mac_msg d' = rudics_mac_msg d"
    "mid \<noteq> tx_dest msg \<Longrightarrow> remote_get mid (remote d') = remote_get mid (remote d)"
  using assms
  by (auto simp: send_def Let_def remote_get_set remote_get_index split: if_splits option.splits)

lemma send_on_call:
  assumes "on_call (remote_get (tx_dest msg) (remote d)) = Some oc"
  shows "\<exists>d'. send E t d msg = Inr (d', rudics_send d (serialize_packet E msg) (tx_dest msg)) \<and>
           on_call (remote_get (tx_dest msg) (remote d'))
             = Some (set_last_bytes_sent (int (length (serialize_packet E msg))) (oc\<lparr>last_tx_time := t\<rparr>))"
  using assms
  by (auto simp: send_def Let_def remote_get_set remote_get_index rudics_send_def)









lemma receive_keeps:
  assumes "on_call (remote_get (tx_src msg) (remote d)) = Some oc"
  shows "\<exists>d' evs oc'. receive E t d msg = Inr (d', evs) \<and> clients d' = clients d \<and>
           on_call (remote_get (tx_src msg) (remote d')) = Some oc' \<and>
           last_rx_time oc' = last_rx_time oc \<and> bye_sent oc' = bye_sent oc \<and>
           bye_received oc' = bye_received oc \<and> signal_receive msg \<in> set evs"
proof (cases "tx_type msg = DATA \<and> tx_ack_requested msg \<and> tx_dest msg = cfg_modem_id (driver_cfg d)")
  case False
  with assms show ?thesis by (auto simp: receive_def)
next
  case True
  define ack where "ack = new_ModemTransmission
      \<lparr>tx_type := ACK, tx_src := tx_dest msg, tx_dest := tx_src msg, tx_rate := tx_rate msg,
       tx_acked_frame := [(case tx_frame_start msg of None \<Rightarrow> 0 | Some i \<Rightarrow> i)
          ..< length (tx_frame msg) + (case tx_frame_start msg of None \<Rightarrow> 0 | Some i \<Rightarrow> i)]\<rparr>"
  have dest: "tx_dest ack = tx_src msg" by (simp add: ack_def)
  from assms have "on_call (remote_get (tx_dest ack) (remote d)) = Some oc" by (simp add: dest)
  from send_on_call[OF this, of E t] obtain d' where
    s: "send E t d ack = Inr (d', rudics_send d (serialize_packet E ack) (tx_dest ack))"
    and o: "on_call (remote_get (tx_dest ack) (remote d'))
       = Some (set_last_bytes_sent (int (length (serialize_packet E ack))) (oc\<lparr>last_tx_time := t\<rparr>))"
    by blast
  from True s have "receive E t d msg
      = Inr (d', rudics_send d (serialize_packet E ack) (tx_dest ack) @ [signal_receive msg])"
    by (simp add: receive_def Let_def ack_def)
  with send_frame(1)[OF s] o show ?thesis
    by (simp add: dest set_last_bytes_sent_def)
qed

lemma clients_left_find_None: "clients_left_find cs k = None \<longleftrightarrow> k \<notin> fst ` set cs"
  by (simp add: clients_left_find_def map_of_eq_None_iff)

lemma find_append_None: "find P xs = None \<Longrightarrow> find P (xs @ ys) = find P ys"
  by (induction xs) (auto split: if_splits)

lemma clients_insert_new:
  assumes "clients_left_find cs k = None" "c \<notin> snd ` set cs"
  shows "clients_left_find (clients_insert k c cs) k = Some c"
    and "clients_right_find (clients_insert k c cs) c = Some k"
proof -
  from assms have ins: "clients_insert k c cs = cs @ [(k, c)]"
    by (auto simp: clients_insert_def clients_left_find_None)
  from assms(1) show "clients_left_find (clients_insert k c cs) k = Some c"
    by (simp add: ins clients_left_find_def map_add_def clients_left_find_None
        map_of_eq_None_iff[symmetric])
  from assms(2) have "find (\<lambda>p. snd p = c) cs = None"
    by (force simp: find_None_iff)
  then show "clients_right_find (clients_insert k c cs) c = Some k"
    by (simp add: ins clients_right_find_def find_append_None)
qed

lemma special_lines: "goby_line \<noteq> bye_line" "goby_line \<noteq> []" "bye_line \<noteq> []"
  by (simp_all add: goby_line_def bye_line_def)

text \<open>
  C9, as the code has it. The line \<^verbatim>\<open>goby\<close> with a carriage return changes no state
  and raises nothing. A data line that decodes to a packet, from a source that is
  not in the clients bimap and on a connection that is not in it either, sets the
  on-call record of the source (last receive time \<open>now\<close>, both bye flags clear),
  enters the connection in the bimap under the source, and raises the packet on
  the receive signal. The bye line on a connection that is in the bimap, for a
  remote on a call, sets \<^verbatim>\<open>bye_received\<close> in the on-call record of that remote.
\<close>

theorem rudics_line_call_state:
  "rudics_line E now d goby_line connection = Inr (d, []) \<and>
   (\<forall>msg. data \<noteq> goby_line \<and> data \<noteq> [] \<and> data \<noteq> bye_line \<and> parse_packet E data = Some msg \<and>
          clients_left_find (clients d) (tx_src msg) = None \<and> connection \<notin> snd ` set (clients d) \<longrightarrow>
      (\<exists>d' evs oc'. rudics_line E now d data connection = Inr (d', evs) \<and>
         clients_left_find (clients d') (tx_src msg) = Some connection \<and>
         clients_right_find (clients d') connection = Some (tx_src msg) \<and>
         on_call (remote_get (tx_src msg) (remote d')) = Some oc' \<and>
         last_rx_time oc' = now \<and> \<not> bye_sent oc' \<and> \<not> bye_received oc' \<and>
         signal_receive msg \<in> set evs)) \<and>
   (\<forall>mid oc. clients_right_find (clients d) connection = Some mid \<and>
          on_call (remote_get mid (remote d)) = Some oc \<longrightarrow>
      (\<exists>d'. rudics_line E now d bye_line connection = Inr (d', []) \<and>
         on_call (remote_get mid (remote d')) = Some (oc\<lparr>bye_received := True\<rparr>) \<and>
         clients d' = clients d))"
proof (intro conjI allI impI)
  show "rudics_line E now d goby_line connection = Inr (d, [])"
    by (simp add: rudics_line_def)
next
  fix msg
  assume a: "data \<noteq> goby_line \<and> data \<noteq> [] \<and> data \<noteq> bye_line \<and> parse_packet E data = Some msg \<and>
          clients_left_find (clients d) (tx_src msg) = None \<and> connection \<notin> snd ` set (clients d)"
  define src where "src = tx_src msg"
  define d1 where "d1 = d\<lparr>clients := clients_insert src connection (clients d),
      remote := remote_set src ((remote_get src (remote d))\<lparr>on_call := Some (new_OnCallBase now)\<rparr>) (remote d)\<rparr>"
  define d3 where "d3 = d1\<lparr>remote := remote_set src
      ((remote_get src (remote d1))\<lparr>on_call := Some ((new_OnCallBase now)\<lparr>last_rx_time := now\<rparr>)\<rparr>)
      (remote_index src (remote d1))\<rparr>"
  have oc1: "on_call (remote_get src (remote d1)) = Some (new_OnCallBase now)"
    by (simp add: d1_def remote_get_set)
  have rl: "rudics_line E now d data connection = receive E now d3 msg"
    using a oc1
    by (simp add: rudics_line_def Let_def src_def[symmetric] d1_def[symmetric] remote_get_index d3_def)
  have oc3: "on_call (remote_get (tx_src msg) (remote d3)) = Some ((new_OnCallBase now)\<lparr>last_rx_time := now\<rparr>)"
    by (simp add: d3_def remote_get_set src_def)
  have cl3: "clients d3 = clients_insert src connection (clients d)"
    by (simp add: d3_def d1_def)
  from receive_keeps[OF oc3, of E now] obtain d' evs oc' where
    r: "receive E now d3 msg = Inr (d', evs)" "clients d' = clients d3"
      "on_call (remote_get (tx_src msg) (remote d')) = Some oc'"
      "last_rx_time oc' = now" "\<not> bye_sent oc'" "\<not> bye_received oc'" "signal_receive msg \<in> set evs"
    by (auto simp: new_OnCallBase_def)
  from a have "clients_left_find (clients d) src = None" "connection \<notin> snd ` set (clients d)"
    by (simp_all add: src_def)
  from clients_insert_new[OF this] r rl cl3
  show "\<exists>d' evs oc'. rudics_line E now d data connection = Inr (d', evs) \<and>
         clients_left_find (clients d') (tx_src msg) = Some connection \<and>
         clients_right_find (clients d') connection = Some (tx_src msg) \<and>
         on_call (remote_get (tx_src msg) (remote d')) = Some oc' \<and>
         last_rx_time oc' = now \<and> \<not> bye_sent oc' \<and> \<not> bye_received oc' \<and>
         signal_receive msg \<in> set evs"
    by (auto simp: src_def)
next
  fix mid oc
  assume "clients_right_find (clients d) connection = Some mid \<and>
          on_call (remote_get mid (remote d)) = Some oc"
  then show "\<exists>d'. rudics_line E now d bye_line connection = Inr (d', []) \<and>
         on_call (remote_get mid (remote d')) = Some (oc\<lparr>bye_received := True\<rparr>) \<and>
         clients d' = clients d"
    using special_lines
    by (auto simp: rudics_line_def Let_def remote_get_index remote_get_set)
qed

theorem rudics_line_call_state_witness:
  "(\<exists>d' evs oc'. rudics_line (example_env []) 50 (example_driver None) ''pkt:beef'' 7 = Inr (d', evs) \<and>
       clients_left_find (clients d') 3 = Some 7 \<and>
       clients_right_find (clients d') 7 = Some 3 \<and>
       on_call (remote_get 3 (remote d')) = Some oc' \<and> last_rx_time oc' = 50 \<and>
       \<not> bye_sent oc' \<and> \<not> bye_received oc') \<and>
   (\<exists>d'. rudics_line (example_env []) 60 (example_driver (Some (example_on_call 55 False))) bye_line 7
            = Inr (d', []) \<and>
         on_call (remote_get 3 (remote d')) = Some (example_on_call 55 True))"
proof -
  let ?msg = "new_ModemTransmission\<lparr>tx_src := 3, tx_dest := 1, tx_rate := RATE_RUDICS, tx_frame := [''beef'']\<rparr>"
  have h: "''pkt:beef'' \<noteq> goby_line \<and> ''pkt:beef'' \<noteq> [] \<and> ''pkt:beef'' \<noteq> bye_line \<and>
      parse_packet (example_env []) ''pkt:beef'' = Some ?msg \<and>
      clients_left_find (clients (example_driver None)) (tx_src ?msg) = None \<and>
      7 \<notin> snd ` set (clients (example_driver None))"
    by (simp add: goby_line_def bye_line_def example_env_def example_driver_def clients_left_find_def)
  have s: "tx_src ?msg = 3" by simp
  from rudics_line_call_state[of "example_env []" 50 "example_driver None" 7 "''pkt:beef''",
      THEN conjunct2, THEN conjunct1, rule_format, OF h]
  have 1: "\<exists>d' evs oc'. rudics_line (example_env []) 50 (example_driver None) ''pkt:beef'' 7 = Inr (d', evs) \<and>
       clients_left_find (clients d') 3 = Some 7 \<and>
       clients_right_find (clients d') 7 = Some 3 \<and>
       on_call (remote_get 3 (remote d')) = Some oc' \<and> last_rx_time oc' = 50 \<and>
       \<not> bye_sent oc' \<and> \<not> bye_received oc'"
    unfolding s by blast
  have g: "clients_right_find (clients (example_driver (Some (example_on_call 55 False)))) 7 = Some 3 \<and>
      on_call (remote_get 3 (remote (example_driver (Some (example_on_call 55 False)))))
        = Some (example_on_call 55 False)"
    by (simp add: example_driver_def clients_right_find_def remote_get_def)
  from rudics_line_call_state[of "example_env []" 60 "example_driver (Some (example_on_call 55 False))" 7,
      THEN conjunct2, THEN conjunct2, rule_format, OF g]
  have 2: "\<exists>d'. rudics_line (example_env []) 60 (example_driver (Some (example_on_call 55 False))) bye_line 7
            = Inr (d', []) \<and>
         on_call (remote_get 3 (remote d')) = Some (example_on_call 55 True)"
    by (auto simp: example_on_call_def)
  from 1 2 show ?thesis by blast
qed

text \<open>
  C9 as stated fails: after the line \<^verbatim>\<open>goby\<close> on connection 7 of an idle driver no
  on-call record is set and the connection is not in the clients bimap.
\<close>

theorem rudics_line_goby_sets_nothing:
  "rudics_line (example_env []) 50 (example_driver None) goby_line 7 = Inr (example_driver None, []) \<and>
   on_call (remote_get 3 (remote (example_driver None))) = None \<and>
   clients_right_find (clients (example_driver None)) 7 = None"
  by (simp add: rudics_line_def example_driver_def remote_get_def new_RemoteNode_def clients_right_find_def)

subsection \<open>Handing out data and taking ACKs\<close>







lemma queues_ok_waiting [simp]: "queues_ok (m\<lparr>waiting_for_ack := w\<rparr>) = queues_ok m"
  by (simp add: queues_ok_def)

lemma total_messages_waiting [simp]: "total_messages (m\<lparr>waiting_for_ack := w\<rparr>) = total_messages m"
  by (simp add: total_messages_def)










end
